theory Spec2Isabelle
  imports Main "HOL-Library.Sublist"
begin

section \<open>Strings\<close>

text \<open>
  JavaScript strings are modelled as \<^typ>\<open>string\<close> (byte lists, UTF-8). The helpers below
  are the string methods the worker uses: \<^verbatim>\<open>s.split(c).pop()\<close>, \<^verbatim>\<open>s.trim()\<close>,
  \<^verbatim>\<open>s.includes(t)\<close>, \<^verbatim>\<open>s.startsWith(t)\<close> (the library's \<^const>\<open>prefix\<close>),
  \<^verbatim>\<open>toLowerCase\<close>/\<^verbatim>\<open>toUpperCase\<close> on ASCII letters and SQLite's \<^verbatim>\<open>LIKE\<close>.
\<close>

definition last_segment :: "char \<Rightarrow> string \<Rightarrow> string" where
  \<comment> \<open>\<^verbatim>\<open>s.split(c).pop()\<close>: what follows the last \<open>c\<close>, the whole string when there is none\<close>
  "last_segment c s = rev (takeWhile (\<lambda>x. x \<noteq> c) (rev s))"

definition is_space :: "char \<Rightarrow> bool" where
  "is_space c = (c = CHR '' '' \<or> c = CHR 0x09 \<or> c = CHR 0x0A \<or> c = CHR 0x0B
                 \<or> c = CHR 0x0C \<or> c = CHR 0x0D)"

definition trim :: "string \<Rightarrow> string" where
  "trim s = rev (dropWhile is_space (rev (dropWhile is_space s)))"

fun str_includes :: "string \<Rightarrow> string \<Rightarrow> bool" where
  \<comment> \<open>\<^verbatim>\<open>hay.includes(needle)\<close>\<close>
  "str_includes [] needle = (needle = [])"
| "str_includes (c # cs) needle = (prefix needle (c # cs) \<or> str_includes cs needle)"

definition lower_char :: "char \<Rightarrow> char" where
  "lower_char c =
     (case map_of (zip ''ABCDEFGHIJKLMNOPQRSTUVWXYZ'' ''abcdefghijklmnopqrstuvwxyz'') c of
        Some d \<Rightarrow> d | None \<Rightarrow> c)"

definition upper_char :: "char \<Rightarrow> char" where
  "upper_char c =
     (case map_of (zip ''abcdefghijklmnopqrstuvwxyz'' ''ABCDEFGHIJKLMNOPQRSTUVWXYZ'') c of
        Some d \<Rightarrow> d | None \<Rightarrow> c)"

definition toLowerCase :: "string \<Rightarrow> string" where
  "toLowerCase s = map lower_char s"

definition toUpperCase :: "string \<Rightarrow> string" where
  "toUpperCase s = map upper_char s"

fun sql_like :: "string \<Rightarrow> string \<Rightarrow> bool" where
  \<comment> \<open>\<^verbatim>\<open>s LIKE pattern\<close>: \<open>%\<close> is any run of characters, \<open>_\<close> any one character, ASCII
      letters match without regard to case\<close>
  "sql_like [] s = (s = [])"
| "sql_like (p # ps) [] = (p = CHR ''%'' \<and> sql_like ps [])"
| "sql_like (p # ps) (c # cs) =
     (if p = CHR ''%'' then sql_like ps (c # cs) \<or> sql_like (p # ps) cs
      else (p = CHR ''_'' \<or> lower_char p = lower_char c) \<and> sql_like ps cs)"

definition url_pathname :: "string \<Rightarrow> string option" where
  \<comment> \<open>\<^verbatim>\<open>new URL(u).pathname\<close> for plain http(s) URLs (no escaping, no dot segments);
      \<open>None\<close> where the constructor throws\<close>
  "url_pathname u =
     (let rest = (if prefix ''https://'' u then Some (drop 8 u)
                  else if prefix ''http://'' u then Some (drop 7 u) else None)
      in case rest of
           None \<Rightarrow> None
         | Some r \<Rightarrow>
             (let p = dropWhile (\<lambda>c. c \<noteq> CHR ''/'')
                        (takeWhile (\<lambda>c. c \<noteq> CHR ''?'' \<and> c \<noteq> CHR ''#'') r)
              in Some (if p = [] then ''/'' else p)))"

definition getFileName :: "string \<Rightarrow> string" where
  \<comment> \<open>lines 4144-4152\<close>
  "getFileName u =
     (case url_pathname u of
        Some p \<Rightarrow> last_segment CHR ''/'' p
      | None \<Rightarrow> (let s = last_segment CHR ''/'' u in if s = [] then u else s))"

section \<open>Data model\<close>

text \<open>
  The three tables of the worker's D1 database. A nullable column is an \<open>option\<close>; rows are
  kept in rowid order, the order in which a \<^verbatim>\<open>SELECT\<close> without \<^verbatim>\<open>ORDER BY\<close> scans the
  table, so \<^verbatim>\<open>.first()\<close> is the first matching row of the list.
\<close>

record category =
  cat_id :: nat
  cat_name :: string
  cat_created_at :: nat

record user_setting =
  us_chat_id :: string
  us_storage_type :: "string option"
  current_category_id :: "nat option"
  waiting_for :: "string option"
  editing_file_id :: "nat option"

record file_row =
  row_id :: nat
  url :: string
  fileId :: "string option"
  message_id :: "int option"
  created_at :: nat
  file_name :: "string option"
  file_size :: "nat option"
  mime_type :: "string option"
  storage_type :: "string option"
  category_id :: "nat option"
  chat_id :: "string option"
  remark :: "string option"

type_synonym column = "string \<times> string"
  \<comment> \<open>a column as \<^verbatim>\<open>PRAGMA table_info\<close> reports it: name and declared type\<close>

record r2_object =
  body :: string
  contentType :: "string option"

datatype bot_text =
    MsgUnauthorized
  | MsgCategoryExists string
  | MsgCategoryCreated string
  | MsgCategoryFailed
  | MsgFileGone
  | MsgRenameOk string
  | MsgNeedFullName
  | MsgNoMatch
  | MsgDeleted string
  | MsgUnknownFileType
  | MsgHowTo
  | MsgFoundFile string string
  | MsgProcessing
  | MsgTooLarge nat
  | MsgUploadFailed

datatype effect =
    SendMessage string bot_text
  | SendPanel string
  | TgDeleteMessage string int
  | TgEditMessage string
  | TgUpload string string string
  | TgSendQr string string

datatype reply =
    EmptyRename | NoRecord | NameExists | UrlUsed | Renamed string
  | MissingIdent | NoSuchFile | Deleted
  | BadUrlList | BulkDone nat nat "string list" "string list"
  | RemarkUpdated | CategoryChanged | BadParams
  | Unauthorised | BadCategoryId | DefaultUndeletable | NoSuchCategory
  | CategoryDeleted string bool
  | Uploaded string | UploadError

datatype file_source = FromCache | FromBucketKey | FromTelegram | FromBucketFileId

datatype response =
    RespText nat string
  | RespJson nat nat reply
  | RespRedirect string
  | RespFile file_source string string
  | RespPage

record world =
  categories_cols :: "column list option"
  user_settings_cols :: "column list option"
  files_cols :: "column list option"
  categories :: "category list"
  categories_seq :: nat
  user_settings :: "user_setting list"
  files :: "file_row list"
  files_seq :: nat
  bucket :: "string \<rightharpoonup> r2_object"
  fileCache :: "string \<rightharpoonup> (string \<times> string \<times> nat)"
  outbox :: "effect list"

record config =
  domain :: string
  enableAuth :: bool
  tgBotToken :: string
  tgChatId :: "string list"
  tgStorageChatId :: string
  maxSizeMB :: nat
  has_bucket :: bool

text \<open>
  A \<^typ>\<open>world\<close> is everything a handler can read or change: the database (the columns
  of each table, \<open>None\<close> for a table that does not exist, the rows, and the AUTOINCREMENT
  counters), the content of the R2 bucket bound as \<^verbatim>\<open>env.BUCKET\<close>, the file-serving cache
  \<^verbatim>\<open>config.fileCache\<close> (a mutable map the handlers get with their \<^verbatim>\<open>config\<close>; a key
  maps to the memoized body, content type and time stamp), and \<^const>\<open>outbox\<close>, the calls
  made to the chat platform, oldest first. A \<^typ>\<open>config\<close> holds the immutable settings;
  \<^const>\<open>has_bucket\<close> says whether the bucket binding exists.

  Every handler is a function from the world before to its response and the world after.
  The handlers of the request routes are modelled on a database whose three tables exist.
  Statements and bucket operations that the external services refuse for reasons of their
  own (a lost connection, a quota) are not modelled, so the \<^verbatim>\<open>catch\<close> blocks that only
  such failures reach have no counterpart; every other \<^verbatim>\<open>throw\<close>, early \<^verbatim>\<open>return\<close> and
  error response of the source is a branch of the model. The clock \<^verbatim>\<open>Date.now()\<close> is the
  argument \<open>now\<close>.
\<close>

section \<open>SQL statements\<close>

definition first_where :: "('r \<Rightarrow> bool) \<Rightarrow> 'r list \<Rightarrow> 'r option" where
  \<comment> \<open>\<^verbatim>\<open>SELECT ... WHERE p\<close> followed by \<^verbatim>\<open>.first()\<close>\<close>
  "first_where p rs = find p rs"

fun newest :: "file_row list \<Rightarrow> file_row option" where
  \<comment> \<open>\<^verbatim>\<open>ORDER BY created_at DESC LIMIT 1\<close>\<close>
  "newest [] = None"
| "newest (r # rs) =
     (case newest rs of
        None \<Rightarrow> Some r
      | Some b \<Rightarrow> if created_at b > created_at r then Some b else Some r)"

definition update_files :: "(file_row \<Rightarrow> bool) \<Rightarrow> (file_row \<Rightarrow> file_row) \<Rightarrow> world \<Rightarrow> world" where
  \<comment> \<open>\<^verbatim>\<open>UPDATE files SET ... WHERE p\<close>\<close>
  "update_files p f w = w\<lparr>files := map (\<lambda>r. if p r then f r else r) (files w)\<rparr>"

definition delete_files :: "(file_row \<Rightarrow> bool) \<Rightarrow> world \<Rightarrow> world" where
  \<comment> \<open>\<^verbatim>\<open>DELETE FROM files WHERE p\<close>\<close>
  "delete_files p w = w\<lparr>files := filter (\<lambda>r. \<not> p r) (files w)\<rparr>"

definition update_user_settings ::
  "(user_setting \<Rightarrow> bool) \<Rightarrow> (user_setting \<Rightarrow> user_setting) \<Rightarrow> world \<Rightarrow> world" where
  "update_user_settings p f w =
     w\<lparr>user_settings := map (\<lambda>r. if p r then f r else r) (user_settings w)\<rparr>"

definition truthy :: "string option \<Rightarrow> bool" where
  \<comment> \<open>JavaScript truthiness of a nullable string\<close>
  "truthy s = (case s of None \<Rightarrow> False | Some t \<Rightarrow> t \<noteq> [])"

definition or_else :: "string option \<Rightarrow> string \<Rightarrow> string" where
  \<comment> \<open>\<^verbatim>\<open>a || b\<close> on a nullable string\<close>
  "or_else a b = (case a of None \<Rightarrow> b | Some t \<Rightarrow> if t = [] then b else t)"




function string_of_nat :: "nat \<Rightarrow> string" where
  \<comment> \<open>the decimal numeral a template literal prints for \<^verbatim>\<open>Date.now()\<close>\<close>
  "string_of_nat n =
     (if n < 10 then [''0123456789'' ! n]
      else string_of_nat (n div 10) @ [''0123456789'' ! (n mod 10)])"
  by pat_completeness auto
termination
  by (relation "measure id") auto

section \<open>Storage helpers\<close>

definition storeFile :: "config \<Rightarrow> string \<Rightarrow> string \<Rightarrow> string option \<Rightarrow> world \<Rightarrow> world" where
  \<comment> \<open>lines 4233-4247; without a bucket the bytes go to the storage chat as a document
      (lines 4248-4267). Both callers run with a bucket and ignore the result\<close>
  "storeFile cfg bytes fileName mimeType w =
     (if has_bucket cfg
      then w\<lparr>bucket := (bucket w)(fileName \<mapsto>
             \<lparr>body = bytes,
              contentType = Some (or_else mimeType ''application/octet-stream'')\<rparr>)\<rparr>
      else w\<lparr>outbox := outbox w @ [TgUpload ''sendDocument'' (tgStorageChatId cfg) fileName]\<rparr>)"

definition deleteFile :: "config \<Rightarrow> string \<Rightarrow> world \<Rightarrow> world" where
  \<comment> \<open>lines 4279-4290\<close>
  "deleteFile cfg key w = (if has_bucket cfg then w\<lparr>bucket := (bucket w)(key := None)\<rparr> else w)"

section \<open>Renaming through \<^verbatim>\<open>/update-suffix\<close>\<close>

definition rename_target :: "string \<Rightarrow> world \<Rightarrow> file_row option" where
  \<comment> \<open>lines 4037-4049: the row by URL, else by \<^verbatim>\<open>fileId\<close> equal to the URL's file name\<close>
  "rename_target u w =
     (case first_where (\<lambda>f. url f = u) (files w) of
        Some f \<Rightarrow> Some f
      | None \<Rightarrow> first_where (\<lambda>f. fileId f = Some (getFileName u)) (files w))"

definition new_file_name :: "string \<Rightarrow> string \<Rightarrow> string" where
  \<comment> \<open>lines 4050-4051: the new base name with the old extension\<close>
  "new_file_name u sfx = sfx @ ''.'' @ last_segment CHR ''.'' (getFileName u)"

definition new_file_url :: "config \<Rightarrow> string \<Rightarrow> string" where
  "new_file_url cfg newFileName = ''https://'' @ domain cfg @ ''/'' @ newFileName"

definition handleUpdateSuffixRequest ::
  "config \<Rightarrow> string \<Rightarrow> string \<Rightarrow> world \<Rightarrow> response \<times> world" where
  \<comment> \<open>lines 4028-4138\<close>
  "handleUpdateSuffixRequest cfg u sfx w =
     (if u = [] \<or> sfx = [] then (RespJson 200 0 EmptyRename, w)
      else
        case rename_target u w of
          None \<Rightarrow> (RespJson 200 0 NoRecord, w)
        | Some fileRecord \<Rightarrow>
            (let originalFileName = getFileName u;
                 newFileName = new_file_name u sfx;
                 fileUrl = new_file_url cfg newFileName;
                 this = (\<lambda>f. row_id f = row_id fileRecord)
             in
               if first_where (\<lambda>f. fileId f = Some newFileName \<and> row_id f \<noteq> row_id fileRecord)
                    (files w) \<noteq> None
               then (RespJson 200 0 NameExists, w)
               else if first_where (\<lambda>f. url f = fileUrl \<and> row_id f \<noteq> row_id fileRecord)
                    (files w) \<noteq> None
               then (RespJson 200 0 UrlUsed, w)
               else if storage_type fileRecord = Some ''telegram''
               then (RespJson 200 1 (Renamed fileUrl),
                     update_files this (\<lambda>f. f\<lparr>url := fileUrl, file_name := Some newFileName\<rparr>) w)
               else if has_bucket cfg
               then
                 (let key = or_else (fileId fileRecord) originalFileName
                  in case bucket w key of
                       Some obj \<Rightarrow>
                         (RespJson 200 1 (Renamed fileUrl),
                          update_files this
                            (\<lambda>f. f\<lparr>fileId := Some newFileName, url := fileUrl,
                                   file_name := Some newFileName\<rparr>)
                            (deleteFile cfg key
                               (storeFile cfg (body obj) newFileName (contentType obj) w)))
                     | None \<Rightarrow>
                         (RespJson 200 1 (Renamed fileUrl),
                          update_files this
                            (\<lambda>f. f\<lparr>url := fileUrl, file_name := Some newFileName\<rparr>) w))
               else (RespJson 200 1 (Renamed fileUrl),
                     update_files this
                       (\<lambda>f. f\<lparr>url := fileUrl, file_name := Some newFileName\<rparr>) w)))"

section \<open>The chat platform and lookup tables\<close>

datatype tg_upload_result = Rejected | Accepted "nat option" "string option"

record tg_file =
  tf_file_id :: string
  tf_file_name :: "string option"
  tf_mime_type :: "string option"

record env =
  getContentType :: "string \<Rightarrow> string"
  derive_name :: "tg_file \<Rightarrow> string \<Rightarrow> nat \<Rightarrow> string \<times> string"
  tg_upload :: "string \<Rightarrow> string \<Rightarrow> tg_upload_result"
  tg_getFile :: "string \<Rightarrow> string option"
  tg_download :: "string \<Rightarrow> nat + (nat option \<times> string)"
  tg_processing_id :: "int option"

text \<open>
  What the handlers read from outside: the extension table of lines 2387-2466, the file
  name and MIME type that lines 1431-1460 derive for a Telegram file from its descriptor, its
  file path and the clock (\<^const>\<open>derive_name\<close>; no property below depends on either), and
  the answers of the Telegram API. \<^const>\<open>tg_upload\<close> answers a send of a file under a method and a name with the
  message id and file id of the stored message; \<^const>\<open>tg_getFile\<close> gives the file path
  of a file id (\<open>None\<close> when \<^verbatim>\<open>ok\<close> is false); \<^const>\<open>tg_download\<close> answers the
  download of a path with the HTTP status of a failure, or with the
  \<^verbatim>\<open>content-length\<close> header and the bytes; \<^const>\<open>tg_processing_id\<close> is the id of the
  progress message the bot has just sent.
\<close>

section \<open>Deleting through \<^verbatim>\<open>/delete\<close> and \<^verbatim>\<open>/delete-multiple\<close>\<close>





section \<open>Bulk remark and category changes\<close>



section \<open>Categories\<close>

definition default_name :: string where
  \<comment> \<open>the UTF-8 bytes of the literal naming the default category\<close>
  "default_name = [CHR 0xE9, CHR 0xBB, CHR 0x98, CHR 0xE8, CHR 0xAE, CHR 0xA4,
                   CHR 0xE5, CHR 0x88, CHR 0x86, CHR 0xE7, CHR 0xB1, CHR 0xBB]"

definition insert_category :: "string \<Rightarrow> nat \<Rightarrow> world \<Rightarrow> nat \<times> world" where
  \<comment> \<open>\<^verbatim>\<open>INSERT INTO categories (name, created_at)\<close> with an AUTOINCREMENT key: the new id
      is above every id ever given; the result is \<^verbatim>\<open>last_row_id\<close>\<close>
  "insert_category n t w =
     (let i = Suc (foldr max (map cat_id (categories w)) (categories_seq w))
      in (i, w\<lparr>categories := categories w @ [\<lparr>cat_id = i, cat_name = n, cat_created_at = t\<rparr>],
               categories_seq := i\<rparr>))"

definition handleDeleteCategoryRequest ::
  "config \<Rightarrow> bool \<Rightarrow> nat option \<Rightarrow> nat \<Rightarrow> world \<Rightarrow> response \<times> world" where
  \<comment> \<open>lines 1760-1824; \<open>ident\<close> is \<open>None\<close> for a missing or non-numeric id\<close>
  "handleDeleteCategoryRequest cfg authed ident now w =
     (if enableAuth cfg \<and> \<not> authed then (RespJson 401 0 Unauthorised, w)
      else
        case ident of
          None \<Rightarrow> (RespJson 400 0 BadCategoryId, w)
        | Some i \<Rightarrow>
            if i = 0 then (RespJson 400 0 BadCategoryId, w)
            else if first_where (\<lambda>c. cat_id c = i \<and> cat_name c = default_name) (categories w)
                      \<noteq> None
            then (RespJson 403 0 DefaultUndeletable, w)
            else
              case first_where (\<lambda>c. cat_id c = i) (categories w) of
                None \<Rightarrow> (RespJson 404 0 NoSuchCategory, w)
              | Some category \<Rightarrow>
                  (let (defaultCategoryId, w1) =
                         (case first_where (\<lambda>c. cat_name c = default_name) (categories w) of
                            None \<Rightarrow> insert_category default_name now w
                          | Some d \<Rightarrow> (cat_id d, w));
                       target = (if defaultCategoryId \<noteq> 0 then Some defaultCategoryId else None);
                       w2 = update_files (\<lambda>f. category_id f = Some i)
                              (\<lambda>f. f\<lparr>category_id := target\<rparr>) w1;
                       w3 = update_user_settings (\<lambda>s. current_category_id s = Some i)
                              (\<lambda>s. s\<lparr>current_category_id := target\<rparr>) w2;
                       w4 = w3\<lparr>categories := filter (\<lambda>c. cat_id c \<noteq> i) (categories w3)\<rparr>
                   in (RespJson 200 1 (CategoryDeleted (cat_name category) (defaultCategoryId \<noteq> 0)),
                       w4)))"

section \<open>Serving a file\<close>







section \<open>Uploading through the web form\<close>



definition upload_method :: "string \<Rightarrow> string list \<Rightarrow> string \<times> string" where
  \<comment> \<open>the Telegram method and form field for a MIME type; the second argument lists the
      image subtypes sent as documents (lines 1491-1503 and 1887-1896)\<close>
  "upload_method mimeType plain =
     (let mainType = takeWhile (\<lambda>c. c \<noteq> CHR ''/'') mimeType;
          subType = takeWhile (\<lambda>c. c \<noteq> CHR ''/'') (drop (Suc (length mainType)) mimeType)
      in if mainType = ''image'' \<and> subType \<notin> set plain then (''sendPhoto'', ''photo'')
         else if mainType = ''video'' then (''sendVideo'', ''video'')
         else if mainType = ''audio'' then (''sendAudio'', ''audio'')
         else (''sendDocument'', ''document''))"

definition insert_file :: "file_row \<Rightarrow> world \<Rightarrow> world" where
  \<comment> \<open>\<^verbatim>\<open>INSERT INTO files (...)\<close> with an AUTOINCREMENT key; the \<open>row_id\<close> of the argument
      is replaced\<close>
  "insert_file r w =
     (let i = Suc (foldr max (map row_id (files w)) (files_seq w))
      in w\<lparr>files := files w @ [r\<lparr>row_id := i\<rparr>], files_seq := i\<rparr>)"



section \<open>The bot: uploads\<close>

definition sendMessage :: "string \<Rightarrow> bot_text \<Rightarrow> world \<Rightarrow> world" where
  \<comment> \<open>lines 2556-2583\<close>
  "sendMessage chatId text w = w\<lparr>outbox := outbox w @ [SendMessage chatId text]\<rparr>"

definition sendPanel :: "string \<Rightarrow> world \<Rightarrow> world" where
  \<comment> \<open>lines 965-1015: the main menu is sent to the chat\<close>
  "sendPanel chatId w = w\<lparr>outbox := outbox w @ [SendPanel chatId]\<rparr>"

definition drop_progress :: "string \<Rightarrow> int option \<Rightarrow> world \<Rightarrow> world" where
  \<comment> \<open>the progress message is deleted when its id is known\<close>
  "drop_progress chatId pid w =
     (case pid of
        None \<Rightarrow> w
      | Some i \<Rightarrow> if i = 0 then w else w\<lparr>outbox := outbox w @ [TgDeleteMessage chatId i]\<rparr>)"

definition sanitize :: "string \<Rightarrow> string" where
  \<comment> \<open>line 1476: every character outside \<^verbatim>\<open>[a-zA-Z0-9\-\_\.]\<close> becomes an underscore\<close>
  "sanitize s =
     map (\<lambda>c. if c \<in> set ''abcdefghijklmnopqrstuvwxyzABCDEFGHIJKLMNOPQRSTUVWXYZ0123456789-_.''
               then c else CHR ''_'') s"

definition media_store ::
  "config \<Rightarrow> env \<Rightarrow> nat \<Rightarrow> string \<Rightarrow> tg_file \<Rightarrow> user_setting \<Rightarrow> string \<Rightarrow> nat option
     \<Rightarrow> string \<Rightarrow> nat option \<Rightarrow> world \<Rightarrow> world" where
  \<comment> \<open>lines 1416-1620: the backend write, the File row and the answer to the chat; the
      \<^verbatim>\<open>catch\<close> of lines 1621-1634 is \<open>failed\<close>\<close>
  "media_store cfg e now chatId file us file_path contentLength bytes categoryId w =
     (let pid = tg_processing_id e;
          failed = (\<lambda>v. sendMessage chatId MsgUploadFailed (drop_progress chatId pid v));
          w1 = w\<lparr>outbox := outbox w @ [TgEditMessage chatId]\<rparr>;
          (fileName, mimeType) = derive_name e file file_path now;
          storageType = or_else (us_storage_type us) ''r2'';
          key = string_of_nat now @ ''_'' @ sanitize fileName;
          finalUrl = ''https://'' @ domain cfg @ ''/'' @ key;
          finish = (\<lambda>k m v.
             (let v1 = v\<lparr>outbox := outbox v @ [TgEditMessage chatId]\<rparr>;
                  v2 = insert_file
                         \<lparr>row_id = 0, url = finalUrl, fileId = Some k, message_id = Some m,
                          created_at = now, file_name = Some fileName, file_size = contentLength,
                          mime_type = Some mimeType, storage_type = Some storageType,
                          category_id = categoryId, chat_id = Some chatId, remark = None\<rparr> v1;
                  v3 = drop_progress chatId pid v2
              in v3\<lparr>outbox := outbox v3 @ [TgSendQr chatId finalUrl]\<rparr>))
      in
        if storageType = ''r2'' \<and> has_bucket cfg
        then finish key (- 1)
               (w1\<lparr>bucket := (bucket w1)(key \<mapsto> \<lparr>body = bytes, contentType = Some mimeType\<rparr>)\<rparr>)
        else
          (let method = fst (upload_method mimeType [''svg+xml'', ''x-icon'']);
               w2 = w1\<lparr>outbox := outbox w1 @ [TgUpload method (tgStorageChatId cfg) fileName]\<rparr>
           in case tg_upload e method fileName of
                Accepted m k \<Rightarrow>
                  if \<not> truthy k \<or> m = None \<or> m = Some 0 then failed w2
                  else finish (the k) (int (the m)) w2
              | Rejected \<Rightarrow>
                  if method = ''sendDocument'' then failed w2
                  else
                    (let w3 = w2\<lparr>outbox := outbox w2 @
                                [TgUpload ''sendDocument'' (tgStorageChatId cfg) fileName]\<rparr>
                     in case tg_upload e ''sendDocument'' fileName of
                          Rejected \<Rightarrow> failed w3
                        | Accepted m k \<Rightarrow>
                            if \<not> truthy k \<or> m = None \<or> m = Some 0 then failed w3
                            else finish (the k) (int (the m)) w3)))"

definition media_category :: "user_setting \<Rightarrow> nat \<Rightarrow> world \<Rightarrow> nat option \<times> world" where
  \<comment> \<open>lines 1371-1394: the chat's current category, else the default category, which is
      created when it is missing\<close>
  "media_category us now w =
     (if current_category_id us \<noteq> None \<and> current_category_id us \<noteq> Some 0
      then (current_category_id us, w)
      else
        case first_where (\<lambda>c. cat_name c = default_name) (categories w) of
          Some d \<Rightarrow> (Some (cat_id d), w)
        | None \<Rightarrow>
            (case insert_category default_name now w of
               (i, w') \<Rightarrow> (if i \<noteq> 0 then Some i else None, w')))"

definition handleMediaUpload ::
  "config \<Rightarrow> env \<Rightarrow> nat \<Rightarrow> string \<Rightarrow> tg_file \<Rightarrow> user_setting \<Rightarrow> world \<Rightarrow> world" where
  \<comment> \<open>lines 1364-1635. The lookup of the category (lines 1371-1394) is started before the
      file is fetched, so it comes first\<close>
  "handleMediaUpload cfg e now chatId file us w =
     (let pid = tg_processing_id e;
          failed = (\<lambda>v. sendMessage chatId MsgUploadFailed (drop_progress chatId pid v));
          w1 = sendMessage chatId MsgProcessing w;
          categoryId = fst (media_category us now w1);
          w2 = snd (media_category us now w1)
      in
        case tg_getFile e (tf_file_id file) of
          None \<Rightarrow> failed w2
        | Some file_path \<Rightarrow>
            (case tg_download e file_path of
               Inl st \<Rightarrow> failed w2
             | Inr (contentLength, bytes) \<Rightarrow>
                 if (case contentLength of
                       Some n \<Rightarrow> n > maxSizeMB cfg * 1024 * 1024 | None \<Rightarrow> False)
                 then sendMessage chatId (MsgTooLarge (maxSizeMB cfg)) (drop_progress chatId pid w2)
                 else media_store cfg e now chatId file us file_path contentLength bytes
                        categoryId w2))"

section \<open>The bot: dialogue\<close>

record message =
  msg_chat_id :: string
  msg_chat_type :: string
  msg_text :: "string option"
  msg_document :: "tg_file option"
  msg_video :: "tg_file option"
  msg_audio :: "tg_file option"
  msg_voice :: "tg_file option"
  msg_video_note :: "tg_file option"
  msg_photo :: "tg_file list option"
  msg_other_file :: "tg_file option"

datatype update = Message message | CallbackQuery string string | OtherUpdate

text \<open>
  A message carries its chat id and chat type, its text and its attachments;
  \<^const>\<open>msg_other_file\<close> is the first other field holding an object with a \<^verbatim>\<open>file_id\<close>
  (lines 824-830). A callback query carries the sender's id and the button's data.
\<close>

definition OK :: response where
  "OK = RespText 200 ''OK''"

definition load_user_setting :: "string \<Rightarrow> nat \<Rightarrow> world \<Rightarrow> user_setting \<times> world" where
  \<comment> \<open>lines 596-616: the chat's settings row, created on first contact\<close>
  "load_user_setting chatId now w =
     (case first_where (\<lambda>s. us_chat_id s = chatId) (user_settings w) of
        Some s \<Rightarrow> (s, w)
      | None \<Rightarrow>
          (let (defaultCategoryId, w1) =
                 (case first_where (\<lambda>c. cat_name c = default_name) (categories w) of
                    Some d \<Rightarrow> (cat_id d, w)
                  | None \<Rightarrow> insert_category default_name now w);
               s = \<lparr>us_chat_id = chatId, us_storage_type = Some ''r2'',
                    current_category_id = Some defaultCategoryId, waiting_for = None,
                    editing_file_id = None\<rparr>
           in (s, w1\<lparr>user_settings := user_settings w1 @ [s]\<rparr>)))"

definition clear_state :: "string \<Rightarrow> world \<Rightarrow> world" where
  \<comment> \<open>\<^verbatim>\<open>UPDATE user_settings SET waiting_for = NULL, editing_file_id = NULL WHERE chat_id = ?\<close>\<close>
  "clear_state chatId w =
     update_user_settings (\<lambda>s. us_chat_id s = chatId)
       (\<lambda>s. s\<lparr>waiting_for := None, editing_file_id := None\<rparr>) w"

definition reply_new_category :: "string \<Rightarrow> string \<Rightarrow> nat \<Rightarrow> world \<Rightarrow> response \<times> world" where
  \<comment> \<open>lines 618-645: the text is the name of a new category\<close>
  "reply_new_category chatId text now w =
     (let categoryName = trim text;
          w1 = (case first_where (\<lambda>c. cat_name c = categoryName) (categories w) of
                  Some c \<Rightarrow> sendMessage chatId (MsgCategoryExists categoryName) w
                | None \<Rightarrow>
                    (let wa = snd (insert_category categoryName now w)
                     in case first_where (\<lambda>c. cat_name c = categoryName) (categories wa) of
                          None \<Rightarrow> sendMessage chatId MsgCategoryFailed wa
                        | Some newCategory \<Rightarrow>
                            sendMessage chatId (MsgCategoryCreated categoryName)
                              (update_user_settings (\<lambda>s. us_chat_id s = chatId)
                                 (\<lambda>s. s\<lparr>current_category_id := Some (cat_id newCategory),
                                        waiting_for := None\<rparr>) wa)));
          w2 = update_user_settings (\<lambda>s. us_chat_id s = chatId) (\<lambda>s. s\<lparr>waiting_for := None\<rparr>) w1
      in (OK, sendPanel chatId w2))"

definition bot_rename ::
  "bool \<Rightarrow> config \<Rightarrow> string \<Rightarrow> string \<Rightarrow> nat \<Rightarrow> world \<Rightarrow> response \<times> world" where
  \<comment> \<open>the two rename replies: lines 646-707 (state \<^verbatim>\<open>new_suffix\<close>), whose statements set
      \<^verbatim>\<open>url\<close> and \<^verbatim>\<open>fileId\<close> only, with \<open>names = False\<close>; lines 890-950 (state
      \<^verbatim>\<open>edit_suffix_input_new\<close>), whose statements set \<^verbatim>\<open>file_name\<close> too, with
      \<open>names = True\<close>\<close>
  "bot_rename names cfg chatId text editing w =
     (let newSuffix = trim text;
          w1 =
            (case first_where (\<lambda>f. row_id f = editing) (files w) of
               None \<Rightarrow> sendMessage chatId MsgFileGone w
             | Some file \<Rightarrow>
                 (let originalFileName = getFileName (url file);
                      newFileName = newSuffix @ ''.'' @ last_segment CHR ''.'' originalFileName;
                      fileUrl = ''https://'' @ domain cfg @ ''/'' @ newFileName;
                      this = (\<lambda>f. row_id f = row_id file);
                      named = (\<lambda>f. if names then f\<lparr>file_name := Some newFileName\<rparr> else f);
                      set_url = update_files this (\<lambda>f. named (f\<lparr>url := fileUrl\<rparr>));
                      w' =
                        (if storage_type file = Some ''telegram'' then set_url w
                         else if storage_type file = Some ''r2'' \<and> has_bucket cfg
                         then
                           (let key = or_else (fileId file) originalFileName
                            in case bucket w key of
                                 Some obj \<Rightarrow>
                                   update_files this
                                     (\<lambda>f. named (f\<lparr>fileId := Some newFileName, url := fileUrl\<rparr>))
                                     (deleteFile cfg key
                                        (storeFile cfg (body obj) newFileName (contentType obj) w))
                               | None \<Rightarrow> set_url w)
                         else set_url w)
                  in sendMessage chatId (MsgRenameOk fileUrl) w'))
      in (OK, sendPanel chatId (clear_state chatId w1)))"

definition bot_find_file :: "string \<Rightarrow> string \<Rightarrow> world \<Rightarrow> file_row option" where
  \<comment> \<open>lines 715-729 and 838-856: a reply starting with \<^verbatim>\<open>http://\<close> or \<^verbatim>\<open>https://\<close> is
      an exact URL among the chat's files; any other reply is a file name or the end of a URL,
      the newest row first\<close>
  "bot_find_file chatId userInput w =
     (if prefix ''http://'' userInput \<or> prefix ''https://'' userInput
      then first_where (\<lambda>f. url f = userInput \<and> chat_id f = Some chatId) (files w)
      else newest (filter (\<lambda>f. (file_name f = Some userInput
                                  \<or> sql_like (''%/'' @ userInput) (url f))
                                 \<and> chat_id f = Some chatId) (files w)))"

definition is_url_reply :: "string \<Rightarrow> bool" where
  "is_url_reply userInput = (prefix ''http://'' userInput \<or> prefix ''https://'' userInput)"

definition reply_delete_file :: "config \<Rightarrow> string \<Rightarrow> string \<Rightarrow> world \<Rightarrow> response \<times> world" where
  \<comment> \<open>lines 708-782\<close>
  "reply_delete_file cfg chatId text w =
     (let w1 = update_user_settings (\<lambda>s. us_chat_id s = chatId) (\<lambda>s. s\<lparr>waiting_for := None\<rparr>) w;
          userInput = trim text
      in
        if \<not> is_url_reply userInput \<and> CHR ''.'' \<notin> set userInput
        then (OK, sendPanel chatId (sendMessage chatId MsgNeedFullName w1))
        else
          case bot_find_file chatId userInput w1 of
            None \<Rightarrow> (OK, sendPanel chatId (sendMessage chatId MsgNoMatch w1))
          | Some fileToDelete \<Rightarrow>
              (let fileName = or_else (file_name fileToDelete) (getFileName (url fileToDelete));
                   w2 =
                     (if storage_type fileToDelete = Some ''r2'' \<and> has_bucket cfg
                         \<and> truthy (fileId fileToDelete)
                      then w1\<lparr>bucket := (bucket w1)(the (fileId fileToDelete) := None)\<rparr>
                      else if storage_type fileToDelete = Some ''telegram''
                         \<and> message_id fileToDelete \<noteq> None
                         \<and> message_id fileToDelete \<noteq> Some 0
                         \<and> message_id fileToDelete \<noteq> Some (- 1)
                      then w1\<lparr>outbox := outbox w1 @
                               [TgDeleteMessage (tgStorageChatId cfg)
                                  (the (message_id fileToDelete))]\<rparr>
                      else w1);
                   w3 = delete_files (\<lambda>f. row_id f = row_id fileToDelete) w2;
                   cacheKey = ''file:'' @ fileName;
                   w4 = (if fileCache w3 cacheKey \<noteq> None
                         then w3\<lparr>fileCache := (fileCache w3)(cacheKey := None)\<rparr> else w3)
               in (OK, sendPanel chatId (sendMessage chatId (MsgDeleted fileName) w4))))"

definition reply_edit_suffix_file :: "string \<Rightarrow> string \<Rightarrow> world \<Rightarrow> response \<times> world" where
  \<comment> \<open>lines 834-889: the text names the file to rename\<close>
  "reply_edit_suffix_file chatId text w =
     (let userInput = trim text
      in
        if \<not> is_url_reply userInput \<and> CHR ''.'' \<notin> set userInput
        then (OK, sendPanel chatId (clear_state chatId (sendMessage chatId MsgNeedFullName w)))
        else
          case bot_find_file chatId userInput w of
            None \<Rightarrow> (OK, sendPanel chatId (clear_state chatId (sendMessage chatId MsgNoMatch w)))
          | Some fileToEdit \<Rightarrow>
              (let fileName = or_else (file_name fileToEdit) (getFileName (url fileToEdit));
                   w1 = update_user_settings (\<lambda>s. us_chat_id s = chatId)
                          (\<lambda>s. s\<lparr>waiting_for := Some ''edit_suffix_input_new'',
                                 editing_file_id := Some (row_id fileToEdit)\<rparr>) w
               in (OK, sendMessage chatId
                         (MsgFoundFile fileName
                            (rev (drop 1 (dropWhile (\<lambda>c. c \<noteq> CHR ''.'') (rev fileName))))) w1)))"

definition message_file :: "message \<Rightarrow> tg_file option option" where
  \<comment> \<open>lines 786-815: \<open>None\<close> when the message has no attachment, \<open>Some None\<close> for an empty
      photo array\<close>
  "message_file m =
     (if msg_document m \<noteq> None then Some (msg_document m)
      else if msg_video m \<noteq> None then Some (msg_video m)
      else if msg_audio m \<noteq> None then Some (msg_audio m)
      else if msg_voice m \<noteq> None then Some (msg_voice m)
      else if msg_video_note m \<noteq> None then Some (msg_video_note m)
      else case msg_photo m of
             None \<Rightarrow> None
           | Some ps \<Rightarrow> Some (if ps = [] then None else Some (last ps)))"

definition handle_message ::
  "config \<Rightarrow> env \<Rightarrow> nat \<Rightarrow> message \<Rightarrow> user_setting \<Rightarrow> world \<Rightarrow> response \<times> world" where
  \<comment> \<open>lines 617-955\<close>
  "handle_message cfg e now m us w =
     (let chatId = msg_chat_id m; text = msg_text m
      in
        if waiting_for us = Some ''new_category'' \<and> truthy text
        then reply_new_category chatId (the text) now w
        else if waiting_for us = Some ''new_suffix'' \<and> truthy text \<and> editing_file_id us \<noteq> None
        then bot_rename False cfg chatId (the text) (the (editing_file_id us)) w
        else if waiting_for us = Some ''delete_file_input'' \<and> truthy text
        then reply_delete_file cfg chatId (the text) w
        else if text = Some ''/start'' then (OK, sendPanel chatId w)
        else
          case message_file m of
            Some (Some file) \<Rightarrow> (OK, handleMediaUpload cfg e now chatId file us w)
          | Some None \<Rightarrow> (OK, sendMessage chatId MsgUnknownFileType w)
          | None \<Rightarrow>
              (case msg_other_file m of
                 Some file \<Rightarrow> (OK, handleMediaUpload cfg e now chatId file us w)
               | None \<Rightarrow>
                   if waiting_for us = Some ''edit_suffix_input_file'' \<and> truthy text
                   then reply_edit_suffix_file chatId (the text) w
                   else if waiting_for us = Some ''edit_suffix_input_new'' \<and> truthy text
                           \<and> editing_file_id us \<noteq> None
                   then bot_rename True cfg chatId (the text) (the (editing_file_id us)) w
                   else if truthy text \<and> text \<noteq> Some ''/start''
                   then (OK, sendMessage chatId MsgHowTo w)
                   else (OK, w)))"

definition handleTelegramWebhook ::
  "(string \<Rightarrow> string \<Rightarrow> user_setting \<Rightarrow> world \<Rightarrow> world) \<Rightarrow> config \<Rightarrow> env \<Rightarrow> nat \<Rightarrow> update
     \<Rightarrow> world \<Rightarrow> response \<times> world" where
  \<comment> \<open>lines 562-964; \<open>handleCallbackQuery\<close> stands for the button handler of lines
      1085-1363, which no property below is about\<close>
  "handleTelegramWebhook handleCallbackQuery cfg e now upd w =
     (case (case upd of
              Message m \<Rightarrow>
                if msg_chat_type m = ''group'' \<or> msg_chat_type m = ''supergroup'' then None
                else Some (msg_chat_id m)
            | CallbackQuery sender cbData \<Rightarrow> Some sender
            | OtherUpdate \<Rightarrow> None) of
        None \<Rightarrow> (OK, w)
      | Some chatId \<Rightarrow>
          if tgChatId cfg \<noteq> [] \<and> chatId \<notin> set (tgChatId cfg)
          then (OK, if tgBotToken cfg \<noteq> [] then sendMessage chatId MsgUnauthorized w else w)
          else
            (case load_user_setting chatId now w of
               (userSetting, w1) \<Rightarrow>
                 (case upd of
                    Message m \<Rightarrow> handle_message cfg e now m userSetting w1
                  | CallbackQuery sender cbData \<Rightarrow>
                      (OK, handleCallbackQuery chatId cbData userSetting w1)
                  | OtherUpdate \<Rightarrow> (OK, w1))))"

definition dialogue_state :: "string \<Rightarrow> world \<Rightarrow> (string option \<times> nat option) option" where
  \<comment> \<open>the stored \<^verbatim>\<open>waiting_for\<close> and \<^verbatim>\<open>editing_file_id\<close> of a chat\<close>
  "dialogue_state chatId w =
     map_option (\<lambda>s. (waiting_for s, editing_file_id s))
       (first_where (\<lambda>s. us_chat_id s = chatId) (user_settings w))"

section \<open>The schema\<close>

datatype table = Categories | User_settings | Files


definition tableStructures :: "table \<Rightarrow> column list" where
  \<comment> \<open>the expected columns of lines 108-136\<close>
  "tableStructures t =
     (case t of
        Categories \<Rightarrow>
          [(''id'', ''INTEGER''), (''name'', ''TEXT''), (''created_at'', ''DATETIME'')]
      | User_settings \<Rightarrow>
          [(''id'', ''INTEGER''), (''chat_id'', ''TEXT''), (''storage_type'', ''TEXT''),
           (''current_category_id'', ''INTEGER''), (''waiting_for'', ''TEXT''),
           (''editing_file_id'', ''TEXT'')]
      | Files \<Rightarrow>
          [(''id'', ''INTEGER''), (''url'', ''TEXT''), (''fileId'', ''TEXT''),
           (''message_id'', ''INTEGER''), (''created_at'', ''DATETIME''),
           (''file_name'', ''TEXT''), (''file_size'', ''INTEGER''), (''mime_type'', ''TEXT''),
           (''storage_type'', ''TEXT''), (''category_id'', ''INTEGER''), (''chat_id'', ''TEXT''),
           (''remark'', ''TEXT'')])"

definition cols_of :: "table \<Rightarrow> world \<Rightarrow> column list option" where
  \<comment> \<open>\<^verbatim>\<open>PRAGMA table_info(t)\<close>; \<open>None\<close> is "no such table"\<close>
  "cols_of t w =
     (case t of Categories \<Rightarrow> categories_cols w
              | User_settings \<Rightarrow> user_settings_cols w
              | Files \<Rightarrow> files_cols w)"

definition set_cols :: "table \<Rightarrow> column list \<Rightarrow> world \<Rightarrow> world" where
  "set_cols t cs w =
     (case t of Categories \<Rightarrow> w\<lparr>categories_cols := Some cs\<rparr>
              | User_settings \<Rightarrow> w\<lparr>user_settings_cols := Some cs\<rparr>
              | Files \<Rightarrow> w\<lparr>files_cols := Some cs\<rparr>)"


definition has_name :: "column list \<Rightarrow> string \<Rightarrow> bool" where
  \<comment> \<open>column names are compared without regard to case\<close>
  "has_name cs n = list_ex (\<lambda>c. toLowerCase (fst c) = toLowerCase n) cs"


definition column_found :: "column list \<Rightarrow> column \<Rightarrow> bool" where
  \<comment> \<open>lines 141-144\<close>
  "column_found actualColumns expectedColumn =
     list_ex (\<lambda>col. toLowerCase (fst col) = toLowerCase (fst expectedColumn)
                    \<and> str_includes (toUpperCase (snd col)) (snd expectedColumn)) actualColumns"

definition add_column :: "column list \<Rightarrow> column \<Rightarrow> column list" where
  \<comment> \<open>\<^verbatim>\<open>ALTER TABLE t ADD COLUMN\<close> on the table's columns; the "duplicate column name"
      error is swallowed (lines 147-153)\<close>
  "add_column cs c = (if has_name cs (fst c) then cs else cs @ [c])"

definition add_missing :: "column list \<Rightarrow> column list \<Rightarrow> column list" where
  \<comment> \<open>lines 138-155 for one table: \<open>actualColumns\<close> is read once, before the loop\<close>
  "add_missing actualColumns expected =
     foldl (\<lambda>cs c. if column_found actualColumns c then cs else add_column cs c)
       actualColumns expected"

definition check_table :: "table \<Rightarrow> world \<Rightarrow> world" where
  "check_table t w =
     (case cols_of t w of
        None \<Rightarrow> w
      | Some actualColumns \<Rightarrow> set_cols t (add_missing actualColumns (tableStructures t)) w)"

definition ensure_default_category :: "nat \<Rightarrow> world \<Rightarrow> world" where
  \<comment> \<open>lines 157-187\<close>
  "ensure_default_category now w =
     (case first_where (\<lambda>c. cat_name c = default_name) (categories w) of
        Some d \<Rightarrow> w
      | None \<Rightarrow>
          (case insert_category default_name now w of
             (newDefaultId, w1) \<Rightarrow>
               if newDefaultId \<noteq> 0
               then update_user_settings (\<lambda>s. current_category_id s = None)
                      (\<lambda>s. s\<lparr>current_category_id := Some newDefaultId\<rparr>)
                      (update_files (\<lambda>f. category_id f = None)
                         (\<lambda>f. f\<lparr>category_id := Some newDefaultId\<rparr>) w1)
               else w1))"






section \<open>Schema invariants\<close>





section \<open>Example data\<close>

definition cfg0 :: config where
  "cfg0 = \<lparr>domain = ''d.io'', enableAuth = False, tgBotToken = ''T'', tgChatId = [''7''],
           tgStorageChatId = ''9'', maxSizeMB = 20, has_bucket = True\<rparr>"

definition mk_file ::
  "nat \<Rightarrow> string \<Rightarrow> string option \<Rightarrow> nat \<Rightarrow> string option \<Rightarrow> string \<Rightarrow> file_row" where
  "mk_file i u k t n st =
     \<lparr>row_id = i, url = u, fileId = k, message_id = Some (if st = ''r2'' then - 1 else 55),
      created_at = t, file_name = n, file_size = Some 10, mime_type = Some ''image/png'',
      storage_type = Some st, category_id = Some 1, chat_id = Some ''7'', remark = None\<rparr>"

definition w0 :: world where
  "w0 = \<lparr>categories_cols = None, user_settings_cols = None, files_cols = None,
         categories = [], categories_seq = 0, user_settings = [], files = [], files_seq = 0,
         bucket = Map.empty, fileCache = Map.empty, outbox = []\<rparr>"

definition file_a :: file_row where
  "file_a = mk_file 1 ''https://d.io/a.png'' (Some ''tg-a'') 100 (Some ''a.png'') ''telegram''"

definition file_b :: file_row where
  "file_b = mk_file 2 ''https://d.io/b.png'' (Some ''tg-b'') 200 (Some ''b.png'') ''telegram''"


definition refs_ok :: "world \<Rightarrow> bool" where
  "refs_ok w =
     (list_all (\<lambda>f. case category_id f of
                      None \<Rightarrow> True | Some k \<Rightarrow> k \<in> cat_id ` set (categories w)) (files w)
      \<and> list_all (\<lambda>s. case current_category_id s of
                         None \<Rightarrow> True | Some k \<Rightarrow> k \<in> cat_id ` set (categories w))
            (user_settings w))"

definition repoint :: "nat \<Rightarrow> nat \<Rightarrow> nat option \<Rightarrow> nat option" where
  "repoint i d k = (if k = Some i then Some d else k)"

definition photos :: category where
  "photos = \<lparr>cat_id = 2, cat_name = ''Photos'', cat_created_at = 3\<rparr>"

definition us7 :: user_setting where
  "us7 = \<lparr>us_chat_id = ''7'', us_storage_type = Some ''r2'', current_category_id = Some 2,
          waiting_for = None, editing_file_id = None\<rparr>"

definition w_cat :: world where
  "w_cat = w0\<lparr>categories := [\<lparr>cat_id = 1, cat_name = default_name, cat_created_at = 1\<rparr>, photos],
              categories_seq := 2,
              files := [file_a\<lparr>category_id := Some 2\<rparr>, file_b],
              user_settings := [us7]\<rparr>"


definition w_ab :: world where
  "w_ab = w0\<lparr>files := [file_a, file_b]\<rparr>"

definition env0 :: env where
  "env0 = \<lparr>getContentType = (\<lambda>x. ''image/png''),
           derive_name = (\<lambda>f p t. (or_else (tf_file_name f) ''file.png'', ''image/png'')),
           tg_upload = (\<lambda>m n. Accepted (Some 77) (Some ''tg-new'')),
           tg_getFile = (\<lambda>i. Some (''photos/'' @ i)),
           tg_download = (\<lambda>p. Inr (Some 26214400, ''bytes'')),
           tg_processing_id = Some 5\<rparr>"



definition update_chat_id :: "update \<Rightarrow> string option" where
  \<comment> \<open>lines 567-584: the chat a message comes from, the sender of a callback query\<close>
  "update_chat_id upd =
     (case upd of Message m \<Rightarrow> Some (msg_chat_id m)
                | CallbackQuery sender cbData \<Rightarrow> Some sender
                | OtherUpdate \<Rightarrow> None)"

definition is_group_message :: "update \<Rightarrow> bool" where
  "is_group_message upd =
     (case upd of Message m \<Rightarrow> msg_chat_type m = ''group'' \<or> msg_chat_type m = ''supergroup''
                | _ \<Rightarrow> False)"

definition text_message :: "string \<Rightarrow> string \<Rightarrow> string \<Rightarrow> message" where
  "text_message chatId chat_type text =
     \<lparr>msg_chat_id = chatId, msg_chat_type = chat_type, msg_text = Some text,
      msg_document = None, msg_video = None, msg_audio = None, msg_voice = None,
      msg_video_note = None, msg_photo = None, msg_other_file = None\<rparr>"

definition no_buttons :: "string \<Rightarrow> string \<Rightarrow> user_setting \<Rightarrow> world \<Rightarrow> world" where
  "no_buttons chatId cbData us w = w"

definition waiting_state :: "string \<Rightarrow> world \<Rightarrow> string option option" where
  \<comment> \<open>the stored \<^verbatim>\<open>waiting_for\<close> of a chat; \<open>Some None\<close> is the idle state\<close>
  "waiting_state chatId w = map_option fst (dialogue_state chatId w)"











section \<open>Properties\<close>

text \<open>
  C10. A \<^verbatim>\<open>/update-suffix\<close> request whose new file name is already the \<^verbatim>\<open>fileId\<close> of
  another row, or whose new URL is already the URL of another row, is answered with
  \<^verbatim>\<open>{status: 0}\<close> and leaves the database, the bucket and the chat store as they were.
\<close>

theorem update_suffix_conflict_rejected:
  assumes "u \<noteq> []" and "sfx \<noteq> []"
    and "rename_target u w = Some t"
    and "g \<in> set (files w)" and "row_id g \<noteq> row_id t"
    and "fileId g = Some (new_file_name u sfx)
         \<or> url g = new_file_url cfg (new_file_name u sfx)"
  shows "\<exists>m. handleUpdateSuffixRequest cfg u sfx w = (RespJson 200 0 m, w)
             \<and> (m = NameExists \<or> m = UrlUsed)"
proof -
  have "first_where (\<lambda>f. fileId f = Some (new_file_name u sfx) \<and> row_id f \<noteq> row_id t)
          (files w) \<noteq> None
        \<or> first_where (\<lambda>f. url f = new_file_url cfg (new_file_name u sfx)
                             \<and> row_id f \<noteq> row_id t) (files w) \<noteq> None"
    using assms(4-6) by (auto simp: first_where_def find_None_iff)
  then show ?thesis
    using assms(1-3) by (auto simp: handleUpdateSuffixRequest_def Let_def)
qed

theorem update_suffix_conflict_rejected_witness:
  "\<exists>m. handleUpdateSuffixRequest cfg0 ''https://d.io/a.png'' ''b'' (w0\<lparr>files := [file_a, file_b]\<rparr>)
         = (RespJson 200 0 m, w0\<lparr>files := [file_a, file_b]\<rparr>)
       \<and> (m = NameExists \<or> m = UrlUsed)"
  by (rule update_suffix_conflict_rejected [where t = file_a and g = file_b])
     (simp_all add: rename_target_def first_where_def file_a_def file_b_def mk_file_def w0_def
        cfg0_def new_file_name_def new_file_url_def getFileName_def url_pathname_def
        last_segment_def)

subsection \<open>Schema initialization\<close>














lemma categories_check_table [simp]: "categories (check_table t w) = categories w"
  by (cases t) (auto simp: check_table_def set_cols_def split: option.splits)



























lemma cols_ensure_default [simp]:
  "cols_of t (ensure_default_category now w) = cols_of t w"
  by (cases t)
     (auto simp: ensure_default_category_def cols_of_def insert_category_def
           update_files_def update_user_settings_def Let_def split: option.splits)




subsection \<open>Deleting a category\<close>

lemma find_by_id:
  "distinct (map cat_id cs) \<Longrightarrow> c \<in> set cs \<Longrightarrow> find (\<lambda>x. cat_id x = cat_id c) cs = Some c"
  by (induction cs) (auto simp: image_iff)

lemma find_filter_keep:
  "(\<And>x. x \<in> set xs \<Longrightarrow> P x \<Longrightarrow> Q x) \<Longrightarrow> find P (filter Q xs) = find P xs"
  by (induction xs) auto

lemma le_foldr_max: "x \<in> set xs \<Longrightarrow> x \<le> foldr max xs (s::nat)"
  by (induction xs) (auto simp: max_def)

lemma same_id_same_row:
  "distinct (map cat_id cs) \<Longrightarrow> a \<in> set cs \<Longrightarrow> b \<in> set cs \<Longrightarrow> cat_id a = cat_id b \<Longrightarrow> a = b"
  by (induction cs) (auto simp: image_iff)

lemma delete_category_default:
  assumes "enableAuth cfg \<longrightarrow> authed" and "i \<noteq> 0" and "c \<in> set (categories w)"
    and "cat_id c = i" and "cat_name c = default_name"
  shows "handleDeleteCategoryRequest cfg authed (Some i) now w
           = (RespJson 403 0 DefaultUndeletable, w)"
  using assms
  by (auto simp: handleDeleteCategoryRequest_def first_where_def find_None_iff)

lemma delete_category_other:
  assumes auth: "enableAuth cfg \<longrightarrow> authed" and nz: "i \<noteq> 0"
    and pk: "distinct (map cat_id (categories w))"
    and pos: "0 \<notin> cat_id ` set (categories w)"
    and c: "c \<in> set (categories w)" "cat_id c = i" "cat_name c \<noteq> default_name"
  shows "\<exists>d w'. handleDeleteCategoryRequest cfg authed (Some i) now w
                  = (RespJson 200 1 (CategoryDeleted (cat_name c) True), w')
           \<and> d \<noteq> i
           \<and> (\<exists>x \<in> set (categories w'). cat_id x = d \<and> cat_name x = default_name)
           \<and> i \<notin> cat_id ` set (categories w')
           \<and> cat_id ` set (categories w) - {i} \<subseteq> cat_id ` set (categories w')
           \<and> files w' = map (\<lambda>f. f\<lparr>category_id := repoint i d (category_id f)\<rparr>) (files w)
           \<and> user_settings w' =
               map (\<lambda>s. s\<lparr>current_category_id := repoint i d (current_category_id s)\<rparr>)
                 (user_settings w)"
proof -
  have nd: "first_where (\<lambda>x. cat_id x = i \<and> cat_name x = default_name) (categories w) = None"
    using same_id_same_row [OF pk _ c(1)] c(2,3)
    by (auto simp: first_where_def find_None_iff)
  have fc: "first_where (\<lambda>x. cat_id x = i) (categories w) = Some c"
    using find_by_id [OF pk c(1)] c(2) by (simp add: first_where_def)
  have same: "\<And>f. (if category_id f = Some i then f\<lparr>category_id := Some d\<rparr> else f)
                 = f\<lparr>category_id := repoint i d (category_id f)\<rparr>" for d
    by (simp add: repoint_def)
  have same': "\<And>s. (if current_category_id s = Some i then s\<lparr>current_category_id := Some d\<rparr>
                       else s)
                 = s\<lparr>current_category_id := repoint i d (current_category_id s)\<rparr>" for d
    by (simp add: repoint_def)
  show ?thesis
  proof (cases "first_where (\<lambda>x. cat_name x = default_name) (categories w)")
    case None
    let ?d = "Suc (foldr max (map cat_id (categories w)) (categories_seq w))"
    have "i \<le> foldr max (map cat_id (categories w)) (categories_seq w)"
      using c(1,2) by (intro le_foldr_max) auto
    then have di: "?d \<noteq> i" by simp
    show ?thesis
      apply (rule exI [of _ ?d])
      using auth nz nd fc None di
      by (auto simp: handleDeleteCategoryRequest_def insert_category_def Let_def
            update_files_def update_user_settings_def same same')
  next
    case (Some d0)
    then have d0: "d0 \<in> set (categories w)" "cat_name d0 = default_name"
      by (auto simp: first_where_def find_Some_iff)
    have di: "cat_id d0 \<noteq> i"
      using same_id_same_row [OF pk d0(1) c(1)] c(2,3) d0(2) by auto
    have dp: "cat_id d0 \<noteq> 0"
      using pos d0(1) by (metis imageI)
    show ?thesis
      apply (rule exI [of _ "cat_id d0"])
      using auth nz nd fc Some di d0 dp
      by (auto simp: handleDeleteCategoryRequest_def Let_def
            update_files_def update_user_settings_def same same')
  qed
qed

lemma refs_ok_repoint:
  assumes "refs_ok w"
    and "d \<in> cat_id ` set (categories w')"
    and "cat_id ` set (categories w) - {i} \<subseteq> cat_id ` set (categories w')"
    and "files w' = map (\<lambda>f. f\<lparr>category_id := repoint i d (category_id f)\<rparr>) (files w)"
    and "user_settings w' =
           map (\<lambda>s. s\<lparr>current_category_id := repoint i d (current_category_id s)\<rparr>)
             (user_settings w)"
  shows "refs_ok w'"
  using assms
  by (auto simp: refs_ok_def list_all_iff repoint_def split: option.splits)

text \<open>
  C6. A \<^verbatim>\<open>/delete-category\<close> request naming the default category is refused and changes
  nothing. A request naming another category answers with success, leaves a default category
  in place, removes the named category and re-points every File row and every
  \<^verbatim>\<open>user_settings\<close> row that referred to it to the default category; when no row
  referred to a missing category before, none does afterwards. Category ids are the table's
  primary key: distinct and positive.
\<close>

theorem default_category_survives_deletion:
  assumes "enableAuth cfg \<longrightarrow> authed" and "i \<noteq> 0"
    and "distinct (map cat_id (categories w))" and "0 \<notin> cat_id ` set (categories w)"
    and "c \<in> set (categories w)" and "cat_id c = i"
  shows "if cat_name c = default_name
         then handleDeleteCategoryRequest cfg authed (Some i) now w
                = (RespJson 403 0 DefaultUndeletable, w)
         else (\<exists>d w'. handleDeleteCategoryRequest cfg authed (Some i) now w
                         = (RespJson 200 1 (CategoryDeleted (cat_name c) True), w')
                 \<and> d \<noteq> i
                 \<and> (\<exists>x \<in> set (categories w'). cat_id x = d \<and> cat_name x = default_name)
                 \<and> i \<notin> cat_id ` set (categories w')
                 \<and> files w' = map (\<lambda>f. f\<lparr>category_id := repoint i d (category_id f)\<rparr>) (files w)
                 \<and> user_settings w' =
                     map (\<lambda>s. s\<lparr>current_category_id := repoint i d (current_category_id s)\<rparr>)
                       (user_settings w)
                 \<and> (refs_ok w \<longrightarrow> refs_ok w'))"
proof (cases "cat_name c = default_name")
  case True
  with delete_category_default [OF assms(1,2,5,6) True, of now] show ?thesis by simp
next
  case False
  from delete_category_other [OF assms(1-6) False, of now]
  obtain d w' where r: "handleDeleteCategoryRequest cfg authed (Some i) now w
                  = (RespJson 200 1 (CategoryDeleted (cat_name c) True), w')"
    and p: "d \<noteq> i" "\<exists>x \<in> set (categories w'). cat_id x = d \<and> cat_name x = default_name"
      "i \<notin> cat_id ` set (categories w')"
      "cat_id ` set (categories w) - {i} \<subseteq> cat_id ` set (categories w')"
      "files w' = map (\<lambda>f. f\<lparr>category_id := repoint i d (category_id f)\<rparr>) (files w)"
      "user_settings w' =
               map (\<lambda>s. s\<lparr>current_category_id := repoint i d (current_category_id s)\<rparr>)
                 (user_settings w)"
    by blast
  have din: "d \<in> cat_id ` set (categories w')"
    using p(2) by auto
  have "refs_ok w \<longrightarrow> refs_ok w'"
    using refs_ok_repoint [OF _ din p(4,5,6)] by blast
  with r p False show ?thesis by auto
qed

theorem default_category_survives_deletion_witness:
  "fst (handleDeleteCategoryRequest cfg0 True (Some 2) 9 w_cat)
     = RespJson 200 1 (CategoryDeleted ''Photos'' True)
   \<and> map category_id (files (snd (handleDeleteCategoryRequest cfg0 True (Some 2) 9 w_cat)))
       = [Some 1, Some 1]
   \<and> refs_ok (snd (handleDeleteCategoryRequest cfg0 True (Some 2) 9 w_cat))"
proof -
  have ne: "cat_name photos \<noteq> default_name"
    by (simp add: photos_def default_name_def)
  have ok: "refs_ok w_cat"
    by (simp add: refs_ok_def w_cat_def w0_def file_a_def file_b_def mk_file_def us7_def
          photos_def)
  have "if cat_name photos = default_name
         then handleDeleteCategoryRequest cfg0 True (Some 2) 9 w_cat
                = (RespJson 403 0 DefaultUndeletable, w_cat)
         else (\<exists>d w'. handleDeleteCategoryRequest cfg0 True (Some 2) 9 w_cat
                         = (RespJson 200 1 (CategoryDeleted (cat_name photos) True), w')
                 \<and> d \<noteq> 2
                 \<and> (\<exists>x \<in> set (categories w'). cat_id x = d \<and> cat_name x = default_name)
                 \<and> 2 \<notin> cat_id ` set (categories w')
                 \<and> files w' = map (\<lambda>f. f\<lparr>category_id := repoint 2 d (category_id f)\<rparr>)
                                (files w_cat)
                 \<and> user_settings w' =
                     map (\<lambda>s. s\<lparr>current_category_id := repoint 2 d (current_category_id s)\<rparr>)
                       (user_settings w_cat)
                 \<and> (refs_ok w_cat \<longrightarrow> refs_ok w'))"
    by (rule default_category_survives_deletion)
       (simp_all add: w_cat_def w0_def photos_def)
  with ne ok obtain d w' where
    r: "handleDeleteCategoryRequest cfg0 True (Some 2) 9 w_cat
          = (RespJson 200 1 (CategoryDeleted (cat_name photos) True), w')"
    and f: "files w' = map (\<lambda>f. f\<lparr>category_id := repoint 2 d (category_id f)\<rparr>) (files w_cat)"
    and k: "refs_ok w'"
    by auto
  have "map category_id (files w') = [Some 1, Some 1]"
    using r
    by (simp add: handleDeleteCategoryRequest_def w_cat_def w0_def photos_def first_where_def
          default_name_def Let_def update_files_def update_user_settings_def file_a_def
          file_b_def mk_file_def cfg0_def)
       auto
  with r k show ?thesis by (simp add: photos_def)
qed

subsection \<open>Bulk operations\<close>













subsection \<open>Upload size limit\<close>



subsection \<open>Chats that are not allowed\<close>

text \<open>
  C9 (as amended). An update whose chat id is not in the non-empty list of allowed chat ids
  is answered with OK; nothing of the database, the bucket or the cache is read or written,
  and nothing is sent except the unauthorized notice. The notice is sent for a private-chat
  message and for a callback query when a bot token is configured; a message from a group
  or supergroup is dropped without a notice.
\<close>

theorem unauthorized_chat_is_only_notified:
  assumes "update_chat_id upd = Some chatId"
    and "tgChatId cfg \<noteq> []" and "chatId \<notin> set (tgChatId cfg)"
  shows "handleTelegramWebhook handleCallbackQuery cfg e now upd w
           = (OK, if is_group_message upd \<or> tgBotToken cfg = [] then w
                  else sendMessage chatId MsgUnauthorized w)"
  using assms
  by (cases upd)
     (auto simp: handleTelegramWebhook_def update_chat_id_def is_group_message_def)

theorem unauthorized_chat_is_only_notified_witness:
  "handleTelegramWebhook no_buttons cfg0 env0 1000 (Message (text_message ''99'' ''private'' ''hi''))
      w_ab
     = (OK, w_ab\<lparr>outbox := [SendMessage ''99'' MsgUnauthorized]\<rparr>)"
  using unauthorized_chat_is_only_notified [of "Message (text_message ''99'' ''private'' ''hi'')"
      "''99''" cfg0 no_buttons env0 1000 w_ab]
  by (simp add: update_chat_id_def is_group_message_def text_message_def cfg0_def
        sendMessage_def w_ab_def w0_def)

text \<open>
  The claim as stated fails for a message from a group chat that is not in the list: the
  handler returns before the check of the list and sends no notice.
\<close>

theorem unauthorized_group_counterexample:
  "''-100'' \<notin> set (tgChatId cfg0) \<and> tgChatId cfg0 \<noteq> []
   \<and> handleTelegramWebhook no_buttons cfg0 env0 1000
        (Message (text_message ''-100'' ''group'' ''hi'')) w_ab = (OK, w_ab)
   \<and> outbox w_ab = []"
  by (simp add: handleTelegramWebhook_def text_message_def cfg0_def w_ab_def w0_def)

subsection \<open>The bot's dialogue\<close>

lemma user_settings_frames [simp]:
  "user_settings (sendMessage c t w) = user_settings w"
  "user_settings (sendPanel c w) = user_settings w"
  "user_settings (snd (insert_category n t' w)) = user_settings w"
  "user_settings (update_files p g w) = user_settings w"
  "user_settings (delete_files p w) = user_settings w"
  "user_settings (storeFile cfg b k m w) = user_settings w"
  "user_settings (deleteFile cfg k w) = user_settings w"
  by (simp_all add: sendMessage_def sendPanel_def insert_category_def update_files_def
        delete_files_def storeFile_def deleteFile_def Let_def)

lemma outbox_sendPanel [simp]: "outbox (sendPanel c w) = outbox w @ [SendPanel c]"
  by (simp add: sendPanel_def)



lemma waiting_state_cong:
  "user_settings w = user_settings v \<Longrightarrow> waiting_state c w = waiting_state c v"
  by (simp add: waiting_state_def dialogue_state_def)


lemma waiting_state_frames [simp]:
  "waiting_state c (sendMessage c' t w) = waiting_state c w"
  "waiting_state c (sendPanel c' w) = waiting_state c w"
  "waiting_state c (snd (insert_category n t' w)) = waiting_state c w"
  "waiting_state c (update_files p g w) = waiting_state c w"
  by (simp_all add: waiting_state_def dialogue_state_def)

lemma row_frames [simp]:
  "first_where q (user_settings (sendMessage c' t w)) = first_where q (user_settings w)"
  "first_where q (user_settings (snd (insert_category n t' w))) = first_where q (user_settings w)"
  by simp_all

















subsection \<open>Resolving a token to a file\<close>











subsection \<open>The response cache\<close>














end
